theory Spec2Isabelle
  imports Complex_Main "HOL-Library.Sublist" "HOL-Library.Char_ord" "HOL-Library.List_Lexorder"
begin

section \<open>Python values and exceptions\<close>

text \<open>
  The dictionaries that flow through the bot (\<open>rate_data\<close>, the notification
  configuration) are typed \<open>Dict[str, Any]\<close>. The values used here are the ones the
  repository puts into them: \<open>None\<close>, floats, strings and dictionaries. A dictionary is
  an association list read with \<open>map_of\<close>. A float is the real number it denotes; only
  finite floats are modelled (no NaN, no infinity, no negative zero), and on those the
  comparisons of Python are the comparisons of the reals.
\<close>

datatype pyval =
    PNone
  | PFloat real
  | PStr string
  | PDict "(string \<times> pyval) list"

type_synonym pydict = "(string \<times> pyval) list"

datatype exn =
    TypeError
  | AttributeError
  | ValueError
  | KeyError
  | OverflowError
  | RequestException
  | SMTPException

text \<open>Truth value testing, as \<open>not x\<close> and \<open>if x:\<close> do it.\<close>

fun py_truthy :: "pyval \<Rightarrow> bool" where
  "py_truthy PNone = False"
| "py_truthy (PFloat x) = (x \<noteq> 0)"
| "py_truthy (PStr s) = (s \<noteq> [])"
| "py_truthy (PDict d) = (d \<noteq> [])"

text \<open>\<open>d.get(k, default)\<close> and \<open>d.get(k)\<close>, whose default is \<open>None\<close>.\<close>

definition dict_get_default :: "pydict \<Rightarrow> string \<Rightarrow> pyval \<Rightarrow> pyval" where
  "dict_get_default d k dflt = (case map_of d k of None \<Rightarrow> dflt | Some v \<Rightarrow> v)"

definition dict_get :: "pydict \<Rightarrow> string \<Rightarrow> pyval" where
  "dict_get d k = dict_get_default d k PNone"

text \<open>
  \<open>x.get(k)\<close> on an arbitrary value: only a dictionary has the method, anything else
  raises \<open>AttributeError\<close>.
\<close>

fun py_get :: "pyval \<Rightarrow> string \<Rightarrow> exn + pyval" where
  "py_get (PDict d) k = Inr (dict_get d k)"
| "py_get _ k = Inl AttributeError"

text \<open>
  \<open>a < b\<close> and \<open>a >= b\<close>: numbers compare by value, strings lexicographically by
  code point (which is the byte order of their UTF-8 encoding); every other pair raises
  \<open>TypeError\<close>.
\<close>

fun py_lt :: "pyval \<Rightarrow> pyval \<Rightarrow> exn + bool" where
  "py_lt (PFloat a) (PFloat b) = Inr (a < b)"
| "py_lt (PStr a) (PStr b) = Inr (a < b)"
| "py_lt _ _ = Inl TypeError"

fun py_ge :: "pyval \<Rightarrow> pyval \<Rightarrow> exn + bool" where
  "py_ge (PFloat a) (PFloat b) = Inr (a \<ge> b)"
| "py_ge (PStr a) (PStr b) = Inr (a \<ge> b)"
| "py_ge _ _ = Inl TypeError"

section \<open>Float arithmetic and formatting\<close>

text \<open>
  Python floats are IEEE 754 binary64. Each arithmetic operation returns the double
  nearest to the exact result, ties to the even mantissa. \<open>fl\<close> is that rounding on the
  reals, with gradual underflow (below \<open>2 ^ -1022\<close> the spacing stays \<open>2 ^ -1074\<close>);
  overflow to infinity is outside the model. \<open>ilog2 n x\<close> finds the binade of \<open>x\<close> in
  at most \<open>n\<close> steps; the exponents of binary64 span fewer than 1100 binades.
\<close>

definition round_half_even :: "real \<Rightarrow> int" where
  "round_half_even x =
     (let f = \<lfloor>x\<rfloor>; d = x - of_int f
      in if d < 1 / 2 then f
         else if 1 / 2 < d then f + 1
         else if even f then f else f + 1)"

fun ilog2 :: "nat \<Rightarrow> real \<Rightarrow> int" where
  "ilog2 0 x = 0"
| "ilog2 (Suc n) x =
     (if 2 \<le> x then ilog2 n (x / 2) + 1
      else if x < 1 then ilog2 n (x * 2) - 1
      else 0)"

definition fl :: "real \<Rightarrow> real" where
  "fl x =
     (let e = max (ilog2 1100 \<bar>x\<bar>) (- 1022);
          ulp = 2 powi (e - 52)
      in of_int (round_half_even (x / ulp)) * ulp)"

definition float_sub :: "real \<Rightarrow> real \<Rightarrow> real" where
  "float_sub a b = fl (a - b)"

definition float_div :: "real \<Rightarrow> real \<Rightarrow> real" where
  "float_div a b = fl (a / b)"

definition float_mul :: "real \<Rightarrow> real \<Rightarrow> real" where
  "float_mul a b = fl (a * b)"

text \<open>\<open>a - b\<close> on Python values: defined on numbers only.\<close>

fun py_sub :: "pyval \<Rightarrow> pyval \<Rightarrow> exn + pyval" where
  "py_sub (PFloat a) (PFloat b) = Inr (PFloat (float_sub a b))"
| "py_sub _ _ = Inl TypeError"

text \<open>
  \<open>format(x, ".Nf")\<close> and \<open>format(x, "+.Nf")\<close> for \<open>N > 0\<close>: the exact value of the
  float is rounded to \<open>N\<close> decimals, ties to even; a negative value keeps its sign even
  when it rounds to zero, and the \<open>+\<close> flag puts a sign on the others.
\<close>

definition digit_char :: "nat \<Rightarrow> char" where
  "digit_char d = ''0123456789'' ! d"

function decimal :: "nat \<Rightarrow> string" where
  "decimal n = (if n < 10 then [digit_char n] else decimal (n div 10) @ [digit_char (n mod 10)])"
  by pat_completeness auto
termination
  by (relation "measure id") auto

declare decimal.simps [simp del]

definition format_f :: "bool \<Rightarrow> nat \<Rightarrow> real \<Rightarrow> string" where
  "format_f show_plus prec x =
     (let n = nat (round_half_even (\<bar>x\<bar> * 10 ^ prec));
          ds = decimal n;
          ds' = replicate (prec + 1 - length ds) (CHR ''0'') @ ds;
          sgn = (if x < 0 then ''-'' else if show_plus then ''+'' else '''')
      in sgn @ take (length ds' - prec) ds' @ ''.'' @ drop (length ds' - prec) ds')"

section \<open>The world outside the process\<close>

text \<open>
  Everything the code reads from outside itself during one call: the wall clock
  (\<open>datetime.now()\<close>, in the renderings the code asks for), the outcome of the SMTP
  session, and the library functions whose results are taken as given
  (\<open>datetime.fromisoformat\<close> followed by \<open>strftime\<close>, \<open>str\<close> on a value that is not
  a string, \<open>float\<close> on a string). One call is given one reading of the clock: the
  date and the hour do not change while it runs.
\<close>

datatype smtp_outcome =
    SmtpCompleted
  | RaisedBeforeSendmail
  | RaisedAfterSendmail

record world =
  today_date :: string
  current_hour :: nat
  now_isoformat :: string
  now_stamp :: string
  smtp :: smtp_outcome
  iso_display :: "string \<Rightarrow> string option"
  str_of :: "pyval \<Rightarrow> string"
  float_of_str :: "string \<Rightarrow> real option"

section \<open>Email renderer (\<open>currency/notifications/currency_notifications.py\<close>)\<close>

text \<open>The literal text of the two templates, cut at the replacement fields.\<close>

definition alert_text_0 :: string where
  \<open>alert_text_0 =
     [CHR 0x0A]
   @ ''        <html>'' @ [CHR 0x0A]
   @ ''        <body style="font-family: Arial, sans-serif; line-height: 1.6; color: #333;">'' @ [CHR 0x0A]
   @ ''            <div style="max-width: 600px; margin: 0 auto; padding: 20px;">'' @ [CHR 0x0A]
   @ ''                <h2 style="color: #e74c3c; text-align: center;">'' @ [CHR 0x0A]
   @ ''                    '' @ [CHR 0xF0, CHR 0x9F, CHR 0x9A, CHR 0xA8] @ '' Currency Exchange Rate Alert'' @ [CHR 0x0A]
   @ ''                </h2>'' @ [CHR 0x0A]
   @ ''                '' @ [CHR 0x0A]
   @ ''                <div style="background-color: #f8f9fa; padding: 20px; border-radius: 8px; margin: 20px 0;">'' @ [CHR 0x0A]
   @ ''                    <h3 style="color: #2c3e50; margin-top: 0;">'' @ [CHR 0x0A]
   @ ''                        ''\<close>

definition alert_text_1 :: string where
  \<open>alert_text_1 =
     '' Exchange Rate Alert'' @ [CHR 0x0A]
   @ ''                    </h3>'' @ [CHR 0x0A]
   @ ''                    '' @ [CHR 0x0A]
   @ ''                    <div style="display: flex; justify-content: space-between; margin: 15px 0;">'' @ [CHR 0x0A]
   @ ''                        <div style="text-align: center;">'' @ [CHR 0x0A]
   @ ''                            <div style="font-size: 24px; font-weight: bold; color: #e74c3c;">'' @ [CHR 0x0A]
   @ ''                                ''\<close>

definition alert_text_2 :: string where
  \<open>alert_text_2 =
     [CHR 0x0A]
   @ ''                            </div>'' @ [CHR 0x0A]
   @ ''                            <div style="color: #7f8c8d; font-size: 14px;">'' @ [CHR 0x0A]
   @ ''                                Current Rate (1 CAD = X RMB)'' @ [CHR 0x0A]
   @ ''                            </div>'' @ [CHR 0x0A]
   @ ''                        </div>'' @ [CHR 0x0A]
   @ ''                        '' @ [CHR 0x0A]
   @ ''                        <div style="text-align: center;">'' @ [CHR 0x0A]
   @ ''                            <div style="font-size: 24px; font-weight: bold; color: #27ae60;">'' @ [CHR 0x0A]
   @ ''                                ''\<close>

definition alert_text_3 :: string where
  \<open>alert_text_3 =
     [CHR 0x0A]
   @ ''                            </div>'' @ [CHR 0x0A]
   @ ''                            <div style="color: #7f8c8d; font-size: 14px;">'' @ [CHR 0x0A]
   @ ''                                Alert Threshold'' @ [CHR 0x0A]
   @ ''                            </div>'' @ [CHR 0x0A]
   @ ''                        </div>'' @ [CHR 0x0A]
   @ ''                    </div>'' @ [CHR 0x0A]
   @ ''                    '' @ [CHR 0x0A]
   @ ''                    <div style="text-align: center; margin: 20px 0;">'' @ [CHR 0x0A]
   @ ''                        <div style="font-size: 18px; font-weight: bold; color: #e74c3c;">'' @ [CHR 0x0A]
   @ ''                            Difference: ''\<close>

definition alert_text_4 :: string where
  \<open>alert_text_4 =
     '' (''\<close>

definition alert_text_5 :: string where
  \<open>alert_text_5 =
     ''%)'' @ [CHR 0x0A]
   @ ''                        </div>'' @ [CHR 0x0A]
   @ ''                    </div>'' @ [CHR 0x0A]
   @ ''                </div>'' @ [CHR 0x0A]
   @ ''                '' @ [CHR 0x0A]
   @ ''                <div style="background-color: #fff3cd; border: 1px solid #ffeaa7; padding: 15px; border-radius: 5px; margin: 20px 0;">'' @ [CHR 0x0A]
   @ ''                    <h4 style="color: #856404; margin-top: 0;">'' @ [CHR 0x0A]
   @ ''                        '' @ [CHR 0xE2, CHR 0x9A, CHR 0xA0, CHR 0xEF, CHR 0xB8, CHR 0x8F] @ '' Alert Details'' @ [CHR 0x0A]
   @ ''                    </h4>'' @ [CHR 0x0A]
   @ ''                    <p style="margin: 5px 0; color: #856404;">'' @ [CHR 0x0A]
   @ ''                        The ''\<close>

definition alert_text_6 :: string where
  \<open>alert_text_6 =
     '' exchange rate has dropped below your specified threshold of ''\<close>

definition alert_text_7 :: string where
  \<open>alert_text_7 =
     ''.'' @ [CHR 0x0A]
   @ ''                    </p>'' @ [CHR 0x0A]
   @ ''                    <p style="margin: 5px 0; color: #856404;">'' @ [CHR 0x0A]
   @ ''                        Current rate: <strong>''\<close>

definition alert_text_8 :: string where
  \<open>alert_text_8 =
     ''</strong> (1 CAD = ''\<close>

definition alert_text_9 :: string where
  \<open>alert_text_9 =
     '' RMB)'' @ [CHR 0x0A]
   @ ''                    </p>'' @ [CHR 0x0A]
   @ ''                    <p style="margin: 5px 0; color: #856404;">'' @ [CHR 0x0A]
   @ ''                        Alert triggered at: <strong>''\<close>

definition alert_text_10 :: string where
  \<open>alert_text_10 =
     ''</strong>'' @ [CHR 0x0A]
   @ ''                    </p>'' @ [CHR 0x0A]
   @ ''                </div>'' @ [CHR 0x0A]
   @ ''                '' @ [CHR 0x0A]
   @ ''                <div style="background-color: #d1ecf1; border: 1px solid #bee5eb; padding: 15px; border-radius: 5px; margin: 20px 0;">'' @ [CHR 0x0A]
   @ ''                    <h4 style="color: #0c5460; margin-top: 0;">'' @ [CHR 0x0A]
   @ ''                        '' @ [CHR 0xF0, CHR 0x9F, CHR 0x93, CHR 0x8A] @ '' What This Means'' @ [CHR 0x0A]
   @ ''                    </h4>'' @ [CHR 0x0A]
   @ ''                    <p style="margin: 5px 0; color: #0c5460;">'' @ [CHR 0x0A]
   @ ''                        A lower CAD-RMB rate means that 1 Canadian Dollar can buy fewer Chinese Yuan (RMB).'' @ [CHR 0x0A]
   @ ''                    </p>'' @ [CHR 0x0A]
   @ ''                    <p style="margin: 5px 0; color: #0c5460;">'' @ [CHR 0x0A]
   @ ''                        This could be a good time to exchange CAD for RMB if you're planning to make a purchase in China.'' @ [CHR 0x0A]
   @ ''                    </p>'' @ [CHR 0x0A]
   @ ''                </div>'' @ [CHR 0x0A]
   @ ''                '' @ [CHR 0x0A]
   @ ''                <div style="text-align: center; margin: 30px 0; padding: 20px; background-color: #f8f9fa; border-radius: 8px;">'' @ [CHR 0x0A]
   @ ''                    <p style="color: #6c757d; font-size: 14px; margin: 0;">'' @ [CHR 0x0A]
   @ ''                        This alert was generated by your Currency Exchange Rate Monitor'' @ [CHR 0x0A]
   @ ''                    </p>'' @ [CHR 0x0A]
   @ ''                    <p style="color: #6c757d; font-size: 12px; margin: 5px 0 0 0;">'' @ [CHR 0x0A]
   @ ''                        Monitor ID: ''\<close>

definition alert_text_11 :: string where
  \<open>alert_text_11 =
     ''-''\<close>

definition alert_text_12 :: string where
  \<open>alert_text_12 =
     [CHR 0x0A]
   @ ''                    </p>'' @ [CHR 0x0A]
   @ ''                </div>'' @ [CHR 0x0A]
   @ ''            </div>'' @ [CHR 0x0A]
   @ ''        </body>'' @ [CHR 0x0A]
   @ ''        </html>'' @ [CHR 0x0A]
   @ ''        ''\<close>

definition summary_text_0 :: string where
  \<open>summary_text_0 =
     [CHR 0x0A]
   @ ''        <html>'' @ [CHR 0x0A]
   @ ''        <body style="font-family: Arial, sans-serif; line-height: 1.6; color: #333;">'' @ [CHR 0x0A]
   @ ''            <div style="max-width: 600px; margin: 0 auto; padding: 20px;">'' @ [CHR 0x0A]
   @ ''                <h2 style="color: #27ae60; text-align: center;">'' @ [CHR 0x0A]
   @ ''                    '' @ [CHR 0xF0, CHR 0x9F, CHR 0x93, CHR 0x8A] @ '' Daily Currency Summary'' @ [CHR 0x0A]
   @ ''                </h2>'' @ [CHR 0x0A]
   @ ''                '' @ [CHR 0x0A]
   @ ''                <div style="background-color: #f8f9fa; padding: 20px; border-radius: 8px; margin: 20px 0;">'' @ [CHR 0x0A]
   @ ''                    <h3 style="color: #2c3e50; margin-top: 0;">'' @ [CHR 0x0A]
   @ ''                        ''\<close>

definition summary_text_1 :: string where
  \<open>summary_text_1 =
     '' Daily Summary'' @ [CHR 0x0A]
   @ ''                    </h3>'' @ [CHR 0x0A]
   @ ''                    '' @ [CHR 0x0A]
   @ ''                    <div style="display: flex; justify-content: space-between; margin: 15px 0;">'' @ [CHR 0x0A]
   @ ''                        <div style="text-align: center;">'' @ [CHR 0x0A]
   @ ''                            <div style="font-size: 24px; font-weight: bold; color: #27ae60;">'' @ [CHR 0x0A]
   @ ''                                ''\<close>

definition summary_text_2 :: string where
  \<open>summary_text_2 =
     [CHR 0x0A]
   @ ''                            </div>'' @ [CHR 0x0A]
   @ ''                            <div style="color: #7f8c8d; font-size: 14px;">'' @ [CHR 0x0A]
   @ ''                                Current Rate (1 CAD = X RMB)'' @ [CHR 0x0A]
   @ ''                            </div>'' @ [CHR 0x0A]
   @ ''                        </div>'' @ [CHR 0x0A]
   @ ''                        '' @ [CHR 0x0A]
   @ ''                        <div style="text-align: center;">'' @ [CHR 0x0A]
   @ ''                            <div style="font-size: 24px; font-weight: bold; color: #6c757d;">'' @ [CHR 0x0A]
   @ ''                                ''\<close>

definition summary_text_3 :: string where
  \<open>summary_text_3 =
     [CHR 0x0A]
   @ ''                            </div>'' @ [CHR 0x0A]
   @ ''                            <div style="color: #7f8c8d; font-size: 14px;">'' @ [CHR 0x0A]
   @ ''                                Alert Threshold'' @ [CHR 0x0A]
   @ ''                            </div>'' @ [CHR 0x0A]
   @ ''                        </div>'' @ [CHR 0x0A]
   @ ''                    </div>'' @ [CHR 0x0A]
   @ ''                    '' @ [CHR 0x0A]
   @ ''                    <div style="text-align: center; margin: 20px 0;">'' @ [CHR 0x0A]
   @ ''                        <div style="font-size: 18px; font-weight: bold; color: #27ae60;">'' @ [CHR 0x0A]
   @ ''                            Difference: ''\<close>

definition summary_text_4 :: string where
  \<open>summary_text_4 =
     '' (''\<close>

definition summary_text_5 :: string where
  \<open>summary_text_5 =
     ''%)'' @ [CHR 0x0A]
   @ ''                        </div>'' @ [CHR 0x0A]
   @ ''                    </div>'' @ [CHR 0x0A]
   @ ''                </div>'' @ [CHR 0x0A]
   @ ''                '' @ [CHR 0x0A]
   @ ''                <div style="background-color: #d4edda; border: 1px solid #c3e6cb; padding: 15px; border-radius: 5px; margin: 20px 0;">'' @ [CHR 0x0A]
   @ ''                    <h4 style="color: #155724; margin-top: 0;">'' @ [CHR 0x0A]
   @ ''                        '' @ [CHR 0xE2, CHR 0x9C, CHR 0x85] @ '' Status Update'' @ [CHR 0x0A]
   @ ''                    </h4>'' @ [CHR 0x0A]
   @ ''                    <p style="margin: 5px 0; color: #155724;">'' @ [CHR 0x0A]
   @ ''                        The ''\<close>

definition summary_text_6 :: string where
  \<open>summary_text_6 =
     '' exchange rate is currently <strong>above</strong> your alert threshold.'' @ [CHR 0x0A]
   @ ''                    </p>'' @ [CHR 0x0A]
   @ ''                    <p style="margin: 5px 0; color: #155724;">'' @ [CHR 0x0A]
   @ ''                        Current rate: <strong>''\<close>

definition summary_text_7 :: string where
  \<open>summary_text_7 =
     ''</strong> (1 CAD = ''\<close>

definition summary_text_8 :: string where
  \<open>summary_text_8 =
     '' RMB)'' @ [CHR 0x0A]
   @ ''                    </p>'' @ [CHR 0x0A]
   @ ''                    <p style="margin: 5px 0; color: #155724;">'' @ [CHR 0x0A]
   @ ''                        Summary generated at: <strong>''\<close>

definition summary_text_9 :: string where
  \<open>summary_text_9 =
     ''</strong>'' @ [CHR 0x0A]
   @ ''                    </p>'' @ [CHR 0x0A]
   @ ''                </div>'' @ [CHR 0x0A]
   @ ''                '' @ [CHR 0x0A]
   @ ''                <div style="background-color: #d1ecf1; border: 1px solid #bee5eb; padding: 15px; border-radius: 5px; margin: 20px 0;">'' @ [CHR 0x0A]
   @ ''                    <h4 style="color: #0c5460; margin-top: 0;">'' @ [CHR 0x0A]
   @ ''                        '' @ [CHR 0xF0, CHR 0x9F, CHR 0x93, CHR 0x88] @ '' Market Analysis'' @ [CHR 0x0A]
   @ ''                    </h4>'' @ [CHR 0x0A]
   @ ''                    <p style="margin: 5px 0; color: #0c5460;">'' @ [CHR 0x0A]
   @ ''                        The Canadian Dollar is performing well against the Chinese Yuan.'' @ [CHR 0x0A]
   @ ''                    </p>'' @ [CHR 0x0A]
   @ ''                    <p style="margin: 5px 0; color: #0c5460;">'' @ [CHR 0x0A]
   @ ''                        No immediate trading opportunities detected. We'll continue monitoring and alert you if the rate drops below ''\<close>

definition summary_text_10 :: string where
  \<open>summary_text_10 =
     ''.'' @ [CHR 0x0A]
   @ ''                    </p>'' @ [CHR 0x0A]
   @ ''                </div>'' @ [CHR 0x0A]
   @ ''                '' @ [CHR 0x0A]
   @ ''                <div style="text-align: center; margin: 30px 0; padding: 20px; background-color: #f8f9fa; border-radius: 8px;">'' @ [CHR 0x0A]
   @ ''                    <p style="color: #6c757d; font-size: 14px; margin: 0;">'' @ [CHR 0x0A]
   @ ''                        Daily summary from your Currency Exchange Rate Monitor'' @ [CHR 0x0A]
   @ ''                    </p>'' @ [CHR 0x0A]
   @ ''                    <p style="color: #6c757d; font-size: 12px; margin: 5px 0 0 0;">'' @ [CHR 0x0A]
   @ ''                        Monitor ID: ''\<close>

definition summary_text_11 :: string where
  \<open>summary_text_11 =
     ''-''\<close>

definition summary_text_12 :: string where
  \<open>summary_text_12 =
     [CHR 0x0A]
   @ ''                    </p>'' @ [CHR 0x0A]
   @ ''                </div>'' @ [CHR 0x0A]
   @ ''            </div>'' @ [CHR 0x0A]
   @ ''        </body>'' @ [CHR 0x0A]
   @ ''        </html>'' @ [CHR 0x0A]
   @ ''        ''\<close>

text \<open>A replacement field without a format specification renders \<open>str(value)\<close>.\<close>

definition render_str :: "world \<Rightarrow> pyval \<Rightarrow> string" where
  "render_str w v = (case v of PStr s \<Rightarrow> s | _ \<Rightarrow> str_of w v)"

definition format_alert_email ::
  "world \<Rightarrow> real \<Rightarrow> real \<Rightarrow> real \<Rightarrow> real \<Rightarrow> string \<Rightarrow> string \<Rightarrow> string" where
  "format_alert_email w current_rate threshold difference percentage_change
       formatted_time currency_pair =
     concat
      [alert_text_0, currency_pair,
       alert_text_1, format_f False 4 current_rate,
       alert_text_2, format_f False 4 threshold,
       alert_text_3, format_f True 4 difference,
       alert_text_4, format_f True 2 percentage_change,
       alert_text_5, currency_pair,
       alert_text_6, format_f False 4 threshold,
       alert_text_7, format_f False 4 current_rate,
       alert_text_8, format_f False 4 current_rate,
       alert_text_9, formatted_time,
       alert_text_10, currency_pair,
       alert_text_11, now_stamp w,
       alert_text_12]"

definition format_summary_email ::
  "world \<Rightarrow> real \<Rightarrow> real \<Rightarrow> real \<Rightarrow> real \<Rightarrow> string \<Rightarrow> string \<Rightarrow> string" where
  "format_summary_email w current_rate threshold difference percentage_change
       formatted_time currency_pair =
     concat
      [summary_text_0, currency_pair,
       summary_text_1, format_f False 4 current_rate,
       summary_text_2, format_f False 4 threshold,
       summary_text_3, format_f True 4 difference,
       summary_text_4, format_f True 2 percentage_change,
       summary_text_5, currency_pair,
       summary_text_6, format_f False 4 current_rate,
       summary_text_7, format_f False 4 current_rate,
       summary_text_8, formatted_time,
       summary_text_9, format_f False 4 threshold,
       summary_text_10, currency_pair,
       summary_text_11, now_stamp w,
       summary_text_12]"

text \<open>\<open>timestamp.replace('Z', '+00:00')\<close>\<close>

definition replace_Z :: "string \<Rightarrow> string" where
  "replace_Z s = concat (map (\<lambda>c. if c = CHR ''Z'' then ''+00:00'' else [c]) s)"

text \<open>
  \<open>_format_email_message\<close>. The subtraction raises \<open>TypeError\<close> unless both values
  are numbers; the display of the timestamp sits in a bare \<open>try/except\<close> that falls
  back to the timestamp as it came.
\<close>

definition format_email_message :: "world \<Rightarrow> pyval \<Rightarrow> bool \<Rightarrow> exn + string" where
  "format_email_message w rate_data is_alert =
     (case rate_data of
        PDict d \<Rightarrow>
          (let current_rate = dict_get_default d ''current_rate'' (PFloat 0);
               threshold = dict_get_default d ''threshold'' (PFloat 0);
               timestamp = dict_get_default d ''timestamp'' (PStr (now_isoformat w));
               currency_pair = dict_get_default d ''currency_pair'' (PStr ''CAD-RMB'')
           in case (current_rate, threshold) of
                (PFloat c, PFloat t) \<Rightarrow>
                  (let difference = float_sub c t;
                       percentage_change =
                         (if t > 0 then float_mul (float_div difference t) 100 else 0);
                       formatted_time =
                         (case timestamp of
                            PStr s \<Rightarrow>
                              (case iso_display w (replace_Z s) of
                                 Some shown \<Rightarrow> shown
                               | None \<Rightarrow> s)
                          | other \<Rightarrow> render_str w other)
                   in Inr (if is_alert
                           then format_alert_email w c t difference percentage_change
                                  formatted_time (render_str w currency_pair)
                           else format_summary_email w c t difference percentage_change
                                  formatted_time (render_str w currency_pair)))
              | _ \<Rightarrow> Inl TypeError)
      | _ \<Rightarrow> Inl AttributeError)"

section \<open>Notification manager (\<open>common/notifications/base_notifications.py\<close>)\<close>

text \<open>
  The notification settings are the dictionary \<open>CurrencyConfig.get_notification_config\<close>
  builds: three strings read from the environment, each \<open>""\<close> when unset.
\<close>

record notification_config =
  email :: string
  gmail_app_password :: string
  recipient_emails :: string

text \<open>The two fields of \<open>BaseNotificationManager\<close> that \<open>send_notifications\<close> reads and writes.\<close>

record notification_state =
  alert_sent_today :: bool
  last_daily_summary :: string

definition initial_state :: notification_state where
  "initial_state = \<lparr>alert_sent_today = False, last_daily_summary = ''''\<rparr>"

text \<open>
  A message that \<open>server.sendmail\<close> accepted: its kind (the subject line tells an alert
  from a summary) and its HTML body.
\<close>

record sent_mail =
  mail_is_alert :: bool
  mail_body :: string

definition get_today_date :: "world \<Rightarrow> string" where
  "get_today_date w = today_date w"

definition is_time_for_daily_summary :: "world \<Rightarrow> bool" where
  "is_time_for_daily_summary w = (current_hour w = 0)"

text \<open>\<open>current_rate < threshold and not self.alert_sent_today\<close>\<close>

definition should_send_alert :: "notification_state \<Rightarrow> pyval \<Rightarrow> pyval \<Rightarrow> exn + bool" where
  "should_send_alert st current_rate threshold =
     (case py_lt current_rate threshold of
        Inl e \<Rightarrow> Inl e
      | Inr below \<Rightarrow> Inr (below \<and> \<not> alert_sent_today st))"

text \<open>
  \<open>self.last_daily_summary != today and current_rate >= threshold and
  self._is_time_for_daily_summary()\<close>, evaluated left to right: the comparison of the
  rates is not reached when a summary already went out today.
\<close>

definition should_send_daily_summary ::
  "world \<Rightarrow> notification_state \<Rightarrow> pyval \<Rightarrow> pyval \<Rightarrow> exn + bool" where
  "should_send_daily_summary w st current_rate threshold =
     (let today = get_today_date w
      in if last_daily_summary st \<noteq> today
         then (case py_ge current_rate threshold of
                 Inl e \<Rightarrow> Inl e
               | Inr at_or_above \<Rightarrow> Inr (at_or_above \<and> is_time_for_daily_summary w))
         else Inr False)"

definition reset_daily_flags :: "world \<Rightarrow> notification_state \<Rightarrow> notification_state" where
  "reset_daily_flags w st =
     (let today = get_today_date w
      in if last_daily_summary st \<noteq> today
         then st\<lparr>alert_sent_today := False, last_daily_summary := ''''\<rparr>
         else st)"

text \<open>
  \<open>_send_email_notification\<close>: the returned flag and the messages that left through
  \<open>sendmail\<close>. Without credentials it returns \<open>True\<close> before anything is built. Every
  exception of the rendering and of the SMTP session is caught and turned into
  \<open>False\<close>; a session that fails after \<open>sendmail\<close> (in \<open>quit\<close>) has delivered the
  message all the same.
\<close>

definition send_email_notification ::
  "world \<Rightarrow> notification_config \<Rightarrow> pyval \<Rightarrow> bool \<Rightarrow> bool \<times> sent_mail list" where
  "send_email_notification w cfg rate_data is_alert =
     (if email cfg = [] \<or> gmail_app_password cfg = [] then (True, [])
      else case format_email_message w rate_data is_alert of
             Inl e \<Rightarrow> (False, [])
           | Inr body \<Rightarrow>
               (case smtp w of
                  SmtpCompleted \<Rightarrow> (True, [\<lparr>mail_is_alert = is_alert, mail_body = body\<rparr>])
                | RaisedBeforeSendmail \<Rightarrow> (False, [])
                | RaisedAfterSendmail \<Rightarrow>
                    (False, [\<lparr>mail_is_alert = is_alert, mail_body = body\<rparr>])))"

text \<open>What one call of \<open>send_notifications\<close> leaves behind.\<close>

record notify_result =
  ok :: bool
  next_state :: notification_state
  outbox :: "sent_mail list"

text \<open>The body of the \<open>try\<close> block of \<open>send_notifications\<close>.\<close>

definition send_notifications_body ::
  "world \<Rightarrow> notification_config \<Rightarrow> notification_state \<Rightarrow> pyval \<Rightarrow> exn + notify_result" where
  "send_notifications_body w cfg st rate_data =
     (if \<not> py_truthy rate_data then Inr \<lparr>ok = True, next_state = st, outbox = []\<rparr>
      else
        case py_get rate_data ''current_rate'' of Inl e \<Rightarrow> Inl e | Inr current_rate \<Rightarrow>
        case py_get rate_data ''threshold'' of Inl e \<Rightarrow> Inl e | Inr threshold \<Rightarrow>
        if current_rate = PNone \<or> threshold = PNone
        then Inr \<lparr>ok = False, next_state = st, outbox = []\<rparr>
        else
          case should_send_alert st current_rate threshold of Inl e \<Rightarrow> Inl e
          | Inr True \<Rightarrow>
              (let (alert_sent, mails) = send_email_notification w cfg rate_data True
               in Inr \<lparr>ok = alert_sent,
                       next_state =
                         (if alert_sent
                          then st\<lparr>alert_sent_today := True, last_daily_summary := ''''\<rparr>
                          else st),
                       outbox = mails\<rparr>)
          | Inr False \<Rightarrow>
              (case should_send_daily_summary w st current_rate threshold of Inl e \<Rightarrow> Inl e
               | Inr True \<Rightarrow>
                   (let (summary_sent, mails) = send_email_notification w cfg rate_data False
                    in Inr \<lparr>ok = summary_sent,
                            next_state =
                              (if summary_sent
                               then st\<lparr>last_daily_summary := get_today_date w\<rparr>
                               else st),
                            outbox = mails\<rparr>)
               | Inr False \<Rightarrow> Inr \<lparr>ok = True, next_state = st, outbox = []\<rparr>))"

text \<open>\<open>send_notifications\<close>: \<open>except Exception\<close> logs and returns \<open>False\<close>.\<close>

definition send_notifications ::
  "world \<Rightarrow> notification_config \<Rightarrow> notification_state \<Rightarrow> pyval \<Rightarrow> notify_result" where
  "send_notifications w cfg st rate_data =
     (case send_notifications_body w cfg st rate_data of
        Inl e \<Rightarrow> \<lparr>ok = False, next_state = st, outbox = []\<rparr>
      | Inr r \<Rightarrow> r)"

text \<open>
  The branch of \<open>send_notifications\<close> that a pair of rates selects, named as the
  specification names it: the alert branch is tried first, the summary branch only when
  the alert branch is not taken.
\<close>

datatype decision = NoOp | SendAlert | SendSummary

definition evaluate ::
  "world \<Rightarrow> notification_state \<Rightarrow> pyval \<Rightarrow> pyval \<Rightarrow> exn + decision" where
  "evaluate w st current_rate threshold =
     (case should_send_alert st current_rate threshold of Inl e \<Rightarrow> Inl e
      | Inr True \<Rightarrow> Inr SendAlert
      | Inr False \<Rightarrow>
          (case should_send_daily_summary w st current_rate threshold of Inl e \<Rightarrow> Inl e
           | Inr True \<Rightarrow> Inr SendSummary
           | Inr False \<Rightarrow> Inr NoOp))"

text \<open>The dictionary the scheduler builds for one sample.\<close>

definition rate_sample :: "real \<Rightarrow> real \<Rightarrow> string \<Rightarrow> pyval" where
  "rate_sample current_rate threshold timestamp =
     PDict [(''current_rate'', PFloat current_rate),
            (''threshold'', PFloat threshold),
            (''timestamp'', PStr timestamp),
            (''currency_pair'', PStr ''CAD-RMB'')]"

section \<open>Rate monitor (\<open>common/monitor/base_monitor.py\<close>, \<open>currency/monitor/currency_monitor.py\<close>)\<close>

text \<open>
  What \<open>response.json()\<close> can hand to \<open>_extract_rate_from_response\<close>, and what one
  HTTP request can end in: \<open>requests.get\<close> raising (connection, timeout),
  \<open>raise_for_status\<close> raising on an error status, a body that is not JSON, or a decoded
  body.
\<close>

datatype json =
    JNull
  | JBool bool
  | JNum real
  | JStr string
  | JArr "json list"
  | JObj "(string \<times> json) list"

datatype http_result =
    RequestFailed
  | BadStatus
  | NotJson
  | Body json

text \<open>
  \<open>float(v)\<close>: a number is converted to the nearest double (an integer too large for a
  double raises \<open>OverflowError\<close>), a string is parsed or raises \<open>ValueError\<close>, a list
  or a dictionary raises \<open>TypeError\<close>.
\<close>

fun py_float :: "world \<Rightarrow> json \<Rightarrow> exn + real" where
  "py_float w (JNum x) =
     (if 2 ^ 1024 - 2 ^ 970 \<le> \<bar>x\<bar> then Inl OverflowError else Inr (fl x))"
| "py_float w (JBool b) = Inr (if b then 1 else 0)"
| "py_float w (JStr s) =
     (case float_of_str w s of None \<Rightarrow> Inl ValueError | Some x \<Rightarrow> Inr x)"
| "py_float w _ = Inl TypeError"

text \<open>\<open>obj.get(key, default)\<close> on a decoded body: only a JSON object has the method.\<close>

fun json_get :: "json \<Rightarrow> string \<Rightarrow> json \<Rightarrow> exn + json" where
  "json_get (JObj kvs) k dflt = Inr (case map_of kvs k of None \<Rightarrow> dflt | Some v \<Rightarrow> v)"
| "json_get _ k dflt = Inl AttributeError"

text \<open>
  \<open>_extract_rate_from_response\<close>. Its handler catches \<open>KeyError\<close>, \<open>ValueError\<close> and
  \<open>TypeError\<close> only; any other exception leaves the function.
\<close>

definition extract_handled :: "exn \<Rightarrow> bool" where
  "extract_handled e = (e = KeyError \<or> e = ValueError \<or> e = TypeError)"

definition extract_rate_body :: "world \<Rightarrow> string \<Rightarrow> json \<Rightarrow> exn + real option" where
  "extract_rate_body w target_currency data =
     (case json_get data ''rates'' (JObj []) of Inl e \<Rightarrow> Inl e | Inr rates \<Rightarrow>
      case json_get rates target_currency JNull of Inl e \<Rightarrow> Inl e | Inr cny_rate \<Rightarrow>
      if cny_rate = JNull then Inr None
      else case py_float w cny_rate of Inl e \<Rightarrow> Inl e | Inr x \<Rightarrow> Inr (Some x))"

definition extract_rate_from_response :: "world \<Rightarrow> string \<Rightarrow> json \<Rightarrow> exn + real option" where
  "extract_rate_from_response w target_currency data =
     (case extract_rate_body w target_currency data of
        Inl e \<Rightarrow> (if extract_handled e then Inr None else Inl e)
      | Inr r \<Rightarrow> Inr r)"

text \<open>
  \<open>get_current_rate\<close>: one request; \<open>except RequestException\<close> and then
  \<open>except Exception\<close> turn every exception of the \<open>try\<close> block into \<open>None\<close>.
\<close>

definition get_current_rate_body :: "world \<Rightarrow> string \<Rightarrow> http_result \<Rightarrow> exn + real option" where
  "get_current_rate_body w target_currency response =
     (case response of
        RequestFailed \<Rightarrow> Inl RequestException
      | BadStatus \<Rightarrow> Inl RequestException
      | NotJson \<Rightarrow> Inl ValueError
      | Body data \<Rightarrow> extract_rate_from_response w target_currency data)"

definition get_current_rate :: "world \<Rightarrow> string \<Rightarrow> http_result \<Rightarrow> exn + real option" where
  "get_current_rate w target_currency response =
     (case get_current_rate_body w target_currency response of
        Inl e \<Rightarrow> Inr None
      | Inr r \<Rightarrow> Inr r)"

text \<open>
  \<open>get_rate_with_retry\<close>. The fetcher is given by the outcome of its \<open>i\<close>-th call
  (counted from 0): a returned value or a raised exception. The loop is
  \<open>for attempt in range(max_attempts)\<close>, and the \<open>except\<close> branch of its body sleeps
  as the branch for \<open>None\<close> does; the trace lists the calls of the fetcher and
  of \<open>time.sleep\<close> in the order they happen.
\<close>

datatype retry_event = Fetch | Sleep nat

function retry_from ::
  "(nat \<Rightarrow> exn + real option) \<Rightarrow> int \<Rightarrow> nat \<Rightarrow> real option \<times> retry_event list" where
  "retry_from fetcher max_attempts attempt =
     (if int attempt < max_attempts then
        (let after_failure =
               (let (result, events) = retry_from fetcher max_attempts (Suc attempt)
                in if int attempt < max_attempts - 1
                   then (result, Fetch # Sleep (2 ^ attempt) # events)
                   else (result, Fetch # events))
         in case fetcher attempt of
              Inr (Some rate) \<Rightarrow> (Some rate, [Fetch])
            | Inr None \<Rightarrow> after_failure
            | Inl e \<Rightarrow> after_failure)
      else (None, []))"
  by pat_completeness auto
termination
  by (relation "measure (\<lambda>(fetcher, max_attempts, attempt). nat (max_attempts - int attempt))") auto

declare retry_from.simps [simp del]

definition get_rate_with_retry ::
  "int \<Rightarrow> (nat \<Rightarrow> exn + real option) \<Rightarrow> int option \<Rightarrow> real option \<times> retry_event list" where
  "get_rate_with_retry configured_max_attempts fetcher max_attempts =
     retry_from fetcher
       (case max_attempts of None \<Rightarrow> configured_max_attempts | Some m \<Rightarrow> m) 0"

section \<open>Scheduler loop (\<open>currency_bot.py\<close>)\<close>

text \<open>
  One pass of the \<open>while True\<close> loop of \<open>run_continuous_monitoring\<close>: reset the daily
  flags, fetch once, and hand a truthy rate to \<open>send_notifications\<close>. A cycle is given
  its reading of the world and the outcome of its request. Each message is listed with
  the date of the cycle that sent it.
\<close>

record bot_config =
  target_currency :: string
  threshold :: real
  notification :: notification_config

record cycle_input =
  cycle_world :: world
  cycle_response :: http_result

definition monitoring_cycle ::
  "bot_config \<Rightarrow> cycle_input \<Rightarrow> notification_state \<Rightarrow>
     notification_state \<times> (string \<times> sent_mail) list" where
  "monitoring_cycle cfg inp st =
     (let w = cycle_world inp;
          st1 = reset_daily_flags w st
      in case get_current_rate w (target_currency cfg) (cycle_response inp) of
           Inr (Some current_rate) \<Rightarrow>
             (if current_rate \<noteq> 0 then
                (let rate_data = rate_sample current_rate (threshold cfg) (now_isoformat w);
                     r = send_notifications w (notification cfg) st1 rate_data
                 in (next_state r, map (Pair (today_date w)) (outbox r)))
              else (st1, []))
         | _ \<Rightarrow> (st1, []))"

text \<open>
  The loop never ends by itself; a run is observed on the cycles it has completed so far.
\<close>

fun run_continuous_monitoring ::
  "bot_config \<Rightarrow> cycle_input list \<Rightarrow> notification_state \<Rightarrow>
     notification_state \<times> (string \<times> sent_mail) list" where
  "run_continuous_monitoring cfg [] st = (st, [])"
| "run_continuous_monitoring cfg (inp # inps) st =
     (let (st1, sent1) = monitoring_cycle cfg inp st;
          (st2, sent2) = run_continuous_monitoring cfg inps st1
      in (st2, sent1 @ sent2))"

section \<open>Sample inputs\<close>

text \<open>
  The sample of \<open>send_test_notification\<close> and of the test script: rate 5.02 against the
  threshold 5.05 at 10:00 on 2025-01-27. The Python literals \<open>5.02\<close> and \<open>5.05\<close> are
  the doubles nearest to 502/100 and 505/100.
\<close>

definition sample_world :: world where
  "sample_world =
     \<lparr>today_date = ''2025-01-27'',
      current_hour = 10,
      now_isoformat = ''2025-01-27T10:00:00'',
      now_stamp = ''20250127-100000'',
      smtp = SmtpCompleted,
      iso_display = (\<lambda>s. None),
      str_of = (\<lambda>v. ''''),
      float_of_str = (\<lambda>s. None)\<rparr>"

definition sample_notification_config :: notification_config where
  "sample_notification_config =
     \<lparr>email = ''bot@example.com'',
      gmail_app_password = ''app-password'',
      recipient_emails = ''owner@example.com''\<rparr>"

definition sample_rate :: real where
  "sample_rate = fl (502 / 100)"

definition sample_threshold :: real where
  "sample_threshold = fl (505 / 100)"

definition sample_rate_data :: pyval where
  "sample_rate_data = rate_sample sample_rate sample_threshold ''2025-01-27T10:00:00''"

definition sample_bot_config :: bot_config where
  "sample_bot_config =
     \<lparr>target_currency = ''CNY'',
      threshold = sample_threshold,
      notification = sample_notification_config\<rparr>"

definition sample_cycle :: cycle_input where
  "sample_cycle =
     \<lparr>cycle_world = sample_world,
      cycle_response = Body (JObj [(''base'', JStr ''CAD''),
                                   (''rates'', JObj [(''CNY'', JNum (502 / 100))])])\<rparr>"

definition midnight_world :: world where
  "midnight_world = sample_world\<lparr>current_hour := 0\<rparr>"

definition failing_smtp_world :: world where
  "failing_smtp_world = sample_world\<lparr>smtp := RaisedBeforeSendmail\<rparr>"

definition unconfigured_notification_config :: notification_config where
  "unconfigured_notification_config =
     \<lparr>email = '''', gmail_app_password = '''', recipient_emails = ''''\<rparr>"

text \<open>
  The trace of a run of \<open>get_rate_with_retry\<close> that makes \<open>k\<close> failed calls, sleeps
  \<open>2 ^ i\<close> seconds after the failed call \<open>i\<close>, and ends with one more call.
\<close>

definition backoff_trace :: "nat \<Rightarrow> retry_event list" where
  "backoff_trace k = concat (map (\<lambda>i. [Fetch, Sleep (2 ^ i)]) [0..<k]) @ [Fetch]"

text \<open>A fetcher that fails twice, once by returning \<open>None\<close> and once by raising, then succeeds.\<close>

definition flaky_fetcher :: "nat \<Rightarrow> exn + real option" where
  "flaky_fetcher i =
     (if i = 0 then Inr None
      else if i = 1 then Inl RequestException
      else Inr (Some sample_rate))"

definition dead_fetcher :: "nat \<Rightarrow> exn + real option" where
  "dead_fetcher i = Inr None"

text \<open>Decoded bodies: one without the configured currency code, one whose rates are a list.\<close>

definition body_without_code :: http_result where
  "body_without_code =
     Body (JObj [(''base'', JStr ''CAD''), (''rates'', JObj [(''USD'', JNum (73 / 100))])])"

definition body_with_rate_list :: http_result where
  "body_with_rate_list = Body (JObj [(''rates'', JArr [JNum (502 / 100)])])"

section \<open>Evaluating the float model\<close>

lemma ilog2_numeral:
  "ilog2 (numeral k) x =
     (if 2 \<le> x then ilog2 (pred_numeral k) (x / 2) + 1
      else if x < 1 then ilog2 (pred_numeral k) (x * 2) - 1
      else 0)"
  by (simp add: numeral_eq_Suc)

lemmas fl_eval = fl_def Let_def round_half_even_def power_int_def power_one_over ilog2_numeral

lemma sample_rate_value: "sample_rate = 1413004383087493 / 281474976710656"
  unfolding sample_rate_def by (simp add: fl_eval)

lemma sample_threshold_value: "sample_threshold = 5685794529555251 / 1125899906842624"
  unfolding sample_threshold_def by (simp add: fl_eval)

lemma sample_rate_below: "sample_rate < sample_threshold"
  by (simp add: sample_rate_value sample_threshold_value)

section \<open>The branches of \<open>send_notifications\<close>\<close>

lemma send_notifications_by_decision:
  assumes "py_truthy rate_data"
      and "py_get rate_data ''current_rate'' = Inr c"
      and "py_get rate_data ''threshold'' = Inr t"
      and "c \<noteq> PNone" and "t \<noteq> PNone"
  shows "send_notifications w cfg st rate_data =
     (case evaluate w st c t of
        Inl e \<Rightarrow> \<lparr>ok = False, next_state = st, outbox = []\<rparr>
      | Inr NoOp \<Rightarrow> \<lparr>ok = True, next_state = st, outbox = []\<rparr>
      | Inr SendAlert \<Rightarrow>
          \<lparr>ok = fst (send_email_notification w cfg rate_data True),
           next_state =
             (if fst (send_email_notification w cfg rate_data True)
              then st\<lparr>alert_sent_today := True, last_daily_summary := ''''\<rparr> else st),
           outbox = snd (send_email_notification w cfg rate_data True)\<rparr>
      | Inr SendSummary \<Rightarrow>
          \<lparr>ok = fst (send_email_notification w cfg rate_data False),
           next_state =
             (if fst (send_email_notification w cfg rate_data False)
              then st\<lparr>last_daily_summary := get_today_date w\<rparr> else st),
           outbox = snd (send_email_notification w cfg rate_data False)\<rparr>)"
  using assms
  by (auto simp: send_notifications_def send_notifications_body_def evaluate_def
           split: sum.splits bool.splits prod.splits)

lemma evaluate_floats:
  "evaluate w st (PFloat r) (PFloat t) =
     Inr (if r < t \<and> \<not> alert_sent_today st then SendAlert
          else if last_daily_summary st \<noteq> today_date w \<and> t \<le> r \<and> current_hour w = 0
               then SendSummary else NoOp)"
  by (auto simp: evaluate_def should_send_alert_def should_send_daily_summary_def
        get_today_date_def is_time_for_daily_summary_def Let_def)

lemma evaluate_not_None:
  assumes "evaluate w st c t = Inr dec"
  shows "c \<noteq> PNone \<and> t \<noteq> PNone"
proof -
  have "\<exists>b. py_lt c t = Inr b"
    using assms by (auto simp: evaluate_def should_send_alert_def split: sum.splits)
  then show ?thesis
    by (cases c; cases t) auto
qed

lemma float_sample_lookup:
  assumes "dict_get d ''current_rate'' = PFloat r" and "dict_get d ''threshold'' = PFloat t"
  shows "py_truthy (PDict d)"
    and "py_get (PDict d) ''current_rate'' = Inr (PFloat r)"
    and "py_get (PDict d) ''threshold'' = Inr (PFloat t)"
  using assms by (auto simp: dict_get_def dict_get_default_def)

lemma rate_sample_lookup:
  "dict_get [(''current_rate'', PFloat r), (''threshold'', PFloat t),
             (''timestamp'', PStr ts), (''currency_pair'', PStr ''CAD-RMB'')] ''current_rate''
     = PFloat r"
  "dict_get [(''current_rate'', PFloat r), (''threshold'', PFloat t),
             (''timestamp'', PStr ts), (''currency_pair'', PStr ''CAD-RMB'')] ''threshold''
     = PFloat t"
  by (simp_all add: dict_get_def dict_get_default_def)

lemma sent_mail_kind:
  "m \<in> set (snd (send_email_notification w cfg rd a)) \<Longrightarrow> mail_is_alert m = a"
  by (auto simp: send_email_notification_def split: if_splits sum.splits smtp_outcome.splits)

lemma format_email_message_floats:
  "format_email_message w (rate_sample r t ts) a =
     Inr (let difference = float_sub r t;
              percentage_change = (if t > 0 then float_mul (float_div difference t) 100 else 0);
              formatted_time = (case iso_display w (replace_Z ts) of Some shown \<Rightarrow> shown | None \<Rightarrow> ts)
          in if a then format_alert_email w r t difference percentage_change formatted_time ''CAD-RMB''
             else format_summary_email w r t difference percentage_change formatted_time ''CAD-RMB'')"
  by (simp add: format_email_message_def rate_sample_def dict_get_default_def Let_def
        render_str_def)

lemma send_email_notification_completed:
  assumes "email cfg \<noteq> []" and "gmail_app_password cfg \<noteq> []" and "smtp w = SmtpCompleted"
  shows "send_email_notification w cfg (rate_sample r t ts) a =
     (True, [\<lparr>mail_is_alert = a,
              mail_body = projr (format_email_message w (rate_sample r t ts) a)\<rparr>])"
  using assms
  by (simp add: send_email_notification_def format_email_message_floats)

section \<open>Alert de-duplication\<close>

text \<open>
  C2. A rate \<open>R\<close> below the threshold \<open>T\<close>, in a state where no alert went out today,
  makes \<open>send_notifications\<close> take the alert branch; when the send step reports success
  the call returns \<open>True\<close>, sets \<open>alert_sent_today\<close> and clears
  \<open>last_daily_summary\<close>. A second call in the state so reached, with any rate \<open>R'\<close>
  below \<open>T\<close> (at any time, the same day included), takes neither branch: it sends
  nothing and leaves the state as it is.
\<close>

theorem alert_once_then_noop:
  assumes "0 < T" and "R < T" and "R' < T"
      and "\<not> alert_sent_today st"
      and "dict_get d ''current_rate'' = PFloat R" and "dict_get d ''threshold'' = PFloat T"
      and "dict_get d' ''current_rate'' = PFloat R'" and "dict_get d' ''threshold'' = PFloat T"
      and "fst (send_email_notification w cfg (PDict d) True)"
  shows "evaluate w st (PFloat R) (PFloat T) = Inr SendAlert
       \<and> send_notifications w cfg st (PDict d) =
           \<lparr>ok = True,
            next_state = st\<lparr>alert_sent_today := True, last_daily_summary := ''''\<rparr>,
            outbox = snd (send_email_notification w cfg (PDict d) True)\<rparr>
       \<and> evaluate w' (next_state (send_notifications w cfg st (PDict d))) (PFloat R') (PFloat T)
           = Inr NoOp
       \<and> send_notifications w' cfg' (next_state (send_notifications w cfg st (PDict d))) (PDict d') =
           \<lparr>ok = True,
            next_state = next_state (send_notifications w cfg st (PDict d)),
            outbox = []\<rparr>"
proof -
  let ?first = "send_notifications w cfg st (PDict d)"
  have dec: "evaluate w st (PFloat R) (PFloat T) = Inr SendAlert"
    using assms(2,4) by (simp add: evaluate_floats)
  have first: "?first =
      \<lparr>ok = True,
       next_state = st\<lparr>alert_sent_today := True, last_daily_summary := ''''\<rparr>,
       outbox = snd (send_email_notification w cfg (PDict d) True)\<rparr>"
    using send_notifications_by_decision
            [OF float_sample_lookup [OF assms(5,6)], of w cfg st] dec assms(9)
    by simp
  have sent: "alert_sent_today (next_state ?first)"
    by (simp add: first)
  have dec': "evaluate w' (next_state ?first) (PFloat R') (PFloat T) = Inr NoOp"
    using assms(3) sent by (simp add: evaluate_floats)
  have second: "send_notifications w' cfg' (next_state ?first) (PDict d') =
      \<lparr>ok = True, next_state = next_state ?first, outbox = []\<rparr>"
    using send_notifications_by_decision
            [OF float_sample_lookup [OF assms(7,8)], of w' cfg' "next_state ?first"] dec'
    by simp
  show ?thesis
    using dec first dec' second by simp
qed

theorem alert_once_then_noop_witness:
  "sample_rate < sample_threshold
   \<and> evaluate sample_world initial_state (PFloat sample_rate) (PFloat sample_threshold)
       = Inr SendAlert
   \<and> send_notifications sample_world sample_notification_config initial_state sample_rate_data =
       \<lparr>ok = True,
        next_state = \<lparr>alert_sent_today = True, last_daily_summary = ''''\<rparr>,
        outbox = snd (send_email_notification sample_world sample_notification_config
                        sample_rate_data True)\<rparr>
   \<and> send_notifications sample_world sample_notification_config
        \<lparr>alert_sent_today = True, last_daily_summary = ''''\<rparr> sample_rate_data =
       \<lparr>ok = True,
        next_state = \<lparr>alert_sent_today = True, last_daily_summary = ''''\<rparr>,
        outbox = []\<rparr>"
proof -
  let ?d = "[(''current_rate'', PFloat sample_rate), (''threshold'', PFloat sample_threshold),
             (''timestamp'', PStr ''2025-01-27T10:00:00''),
             (''currency_pair'', PStr ''CAD-RMB'')]"
  let ?first = "send_notifications sample_world sample_notification_config initial_state (PDict ?d)"
  have rd: "sample_rate_data = PDict ?d"
    by (simp add: sample_rate_data_def rate_sample_def)
  have pos: "0 < sample_threshold"
    by (simp add: sample_threshold_value)
  have fresh: "\<not> alert_sent_today initial_state"
    by (simp add: initial_state_def)
  have sent: "fst (send_email_notification sample_world sample_notification_config (PDict ?d) True)"
    using send_email_notification_completed
            [of sample_notification_config sample_world sample_rate sample_threshold
                "''2025-01-27T10:00:00''" True]
    by (simp add: rate_sample_def sample_world_def sample_notification_config_def)
  note lk = rate_sample_lookup [of sample_rate sample_threshold "''2025-01-27T10:00:00''"]
  note main = alert_once_then_noop
    [OF pos sample_rate_below sample_rate_below fresh lk lk sent,
     of sample_world sample_notification_config]
  have dec: "evaluate sample_world initial_state (PFloat sample_rate) (PFloat sample_threshold)
      = Inr SendAlert"
    using main by blast
  have first: "?first =
      \<lparr>ok = True,
       next_state = initial_state\<lparr>alert_sent_today := True, last_daily_summary := ''''\<rparr>,
       outbox = snd (send_email_notification sample_world sample_notification_config
                       (PDict ?d) True)\<rparr>"
    using main by blast
  have after: "next_state ?first = \<lparr>alert_sent_today = True, last_daily_summary = ''''\<rparr>"
    using first unfolding initial_state_def by simp
  have second: "send_notifications sample_world sample_notification_config (next_state ?first)
       (PDict ?d) = \<lparr>ok = True, next_state = next_state ?first, outbox = []\<rparr>"
    using main by blast
  show ?thesis
    using sample_rate_below dec first second
    unfolding after rd by (simp add: initial_state_def)
qed

section \<open>Daily summary gating\<close>

text \<open>
  C3. With a rate \<open>R\<close> at or above the threshold \<open>T\<close>, \<open>send_notifications\<close> never
  takes the alert branch and no message it sends is an alert. It takes the summary
  branch exactly when \<open>last_daily_summary\<close> differs from today's date and the hour of
  the wall clock is 0, and otherwise does nothing and returns \<open>True\<close>. When the summary
  send reports success, \<open>last_daily_summary\<close> becomes today's date.
\<close>

theorem summary_only_in_midnight_hour:
  assumes "T \<le> R"
      and "dict_get d ''current_rate'' = PFloat R" and "dict_get d ''threshold'' = PFloat T"
  shows "evaluate w st (PFloat R) (PFloat T) \<noteq> Inr SendAlert
       \<and> (evaluate w st (PFloat R) (PFloat T) = Inr SendSummary
            \<longleftrightarrow> last_daily_summary st \<noteq> today_date w \<and> current_hour w = 0)
       \<and> (evaluate w st (PFloat R) (PFloat T) = Inr NoOp
            \<longleftrightarrow> \<not> (last_daily_summary st \<noteq> today_date w \<and> current_hour w = 0))
       \<and> (\<forall>m \<in> set (outbox (send_notifications w cfg st (PDict d))). \<not> mail_is_alert m)
       \<and> (evaluate w st (PFloat R) (PFloat T) = Inr NoOp
            \<longrightarrow> send_notifications w cfg st (PDict d)
                  = \<lparr>ok = True, next_state = st, outbox = []\<rparr>)
       \<and> (evaluate w st (PFloat R) (PFloat T) = Inr SendSummary
            \<and> fst (send_email_notification w cfg (PDict d) False)
            \<longrightarrow> send_notifications w cfg st (PDict d)
                  = \<lparr>ok = True,
                     next_state = st\<lparr>last_daily_summary := today_date w\<rparr>,
                     outbox = snd (send_email_notification w cfg (PDict d) False)\<rparr>)"
proof -
  have dec: "evaluate w st (PFloat R) (PFloat T) =
      Inr (if last_daily_summary st \<noteq> today_date w \<and> current_hour w = 0
           then SendSummary else NoOp)"
    using assms(1) by (simp add: evaluate_floats)
  note run = send_notifications_by_decision
    [OF float_sample_lookup [OF assms(2,3)], of w cfg st]
  have kinds: "\<forall>m \<in> set (outbox (send_notifications w cfg st (PDict d))). \<not> mail_is_alert m"
    using run dec sent_mail_kind [of _ w cfg "PDict d" False] by auto
  show ?thesis
    using dec run kinds by (auto simp: get_today_date_def)
qed

theorem summary_only_in_midnight_hour_witness:
  "sample_threshold \<le> sample_threshold
   \<and> evaluate midnight_world initial_state (PFloat sample_threshold) (PFloat sample_threshold)
       = Inr SendSummary
   \<and> evaluate sample_world initial_state (PFloat sample_threshold) (PFloat sample_threshold)
       = Inr NoOp
   \<and> send_notifications sample_world sample_notification_config initial_state
        (rate_sample sample_threshold sample_threshold ''2025-01-27T00:00:00'')
       = \<lparr>ok = True, next_state = initial_state, outbox = []\<rparr>
   \<and> next_state (send_notifications midnight_world sample_notification_config initial_state
        (rate_sample sample_threshold sample_threshold ''2025-01-27T00:00:00''))
       = \<lparr>alert_sent_today = False, last_daily_summary = ''2025-01-27''\<rparr>"
proof -
  let ?d = "[(''current_rate'', PFloat sample_threshold), (''threshold'', PFloat sample_threshold),
             (''timestamp'', PStr ''2025-01-27T00:00:00''),
             (''currency_pair'', PStr ''CAD-RMB'')]"
  have sent: "fst (send_email_notification midnight_world sample_notification_config (PDict ?d) False)"
    using send_email_notification_completed
            [of sample_notification_config midnight_world sample_threshold sample_threshold
                "''2025-01-27T00:00:00''" False]
    by (simp add: rate_sample_def midnight_world_def sample_world_def
          sample_notification_config_def)
  note lk = rate_sample_lookup [of sample_threshold sample_threshold "''2025-01-27T00:00:00''"]
  note at_midnight = summary_only_in_midnight_hour
    [OF order_refl lk, of midnight_world initial_state sample_notification_config]
  note at_ten = summary_only_in_midnight_hour
    [OF order_refl lk, of sample_world initial_state sample_notification_config]
  have m: "last_daily_summary initial_state \<noteq> today_date midnight_world
           \<and> current_hour midnight_world = 0"
    by (simp add: initial_state_def midnight_world_def sample_world_def)
  have t: "current_hour sample_world \<noteq> 0"
    by (simp add: sample_world_def)
  have dec0: "evaluate midnight_world initial_state (PFloat sample_threshold)
      (PFloat sample_threshold) = Inr SendSummary"
    using at_midnight m by blast
  have dec10: "evaluate sample_world initial_state (PFloat sample_threshold)
      (PFloat sample_threshold) = Inr NoOp"
    using at_ten t by blast
  have run10: "send_notifications sample_world sample_notification_config initial_state (PDict ?d)
      = \<lparr>ok = True, next_state = initial_state, outbox = []\<rparr>"
    using at_ten dec10 by blast
  have run0: "send_notifications midnight_world sample_notification_config initial_state (PDict ?d)
      = \<lparr>ok = True,
         next_state = initial_state\<lparr>last_daily_summary := today_date midnight_world\<rparr>,
         outbox = snd (send_email_notification midnight_world sample_notification_config
                         (PDict ?d) False)\<rparr>"
    using at_midnight dec0 sent by blast
  have st0: "initial_state\<lparr>last_daily_summary := today_date midnight_world\<rparr>
      = \<lparr>alert_sent_today = False, last_daily_summary = ''2025-01-27''\<rparr>"
    by (simp add: initial_state_def midnight_world_def sample_world_def)
  show ?thesis
    using dec0 dec10 run10 run0 unfolding rate_sample_def by (simp add: st0)
qed

section \<open>Failure of the send step\<close>

text \<open>
  C4. When \<open>send_notifications\<close> takes the alert branch or the summary branch and the
  send step returns \<open>False\<close>, the call returns \<open>False\<close> and leaves
  \<open>alert_sent_today\<close> and \<open>last_daily_summary\<close> as they were, so that the same
  branch is taken again when the call is repeated on the same sample at the same clock
  reading.
\<close>

theorem failed_send_keeps_state:
  assumes "evaluate w st c t = Inr dec"
      and "dec = SendAlert \<or> dec = SendSummary"
      and "py_truthy rate_data"
      and "py_get rate_data ''current_rate'' = Inr c"
      and "py_get rate_data ''threshold'' = Inr t"
      and "\<not> fst (send_email_notification w cfg rate_data (dec = SendAlert))"
  shows "ok (send_notifications w cfg st rate_data) = False
       \<and> next_state (send_notifications w cfg st rate_data) = st
       \<and> evaluate w (next_state (send_notifications w cfg st rate_data)) c t = Inr dec"
proof -
  note run = send_notifications_by_decision
    [OF assms(3,4,5), of w cfg st] evaluate_not_None [OF assms(1)]
  have "ok (send_notifications w cfg st rate_data) = False
      \<and> next_state (send_notifications w cfg st rate_data) = st"
    using run assms(1,2,6) by auto
  then show ?thesis
    using assms(1) by simp
qed

theorem failed_send_keeps_state_witness:
  "evaluate failing_smtp_world initial_state (PFloat sample_rate) (PFloat sample_threshold)
     = Inr SendAlert
   \<and> \<not> fst (send_email_notification failing_smtp_world sample_notification_config
              sample_rate_data True)
   \<and> ok (send_notifications failing_smtp_world sample_notification_config initial_state
           sample_rate_data) = False
   \<and> next_state (send_notifications failing_smtp_world sample_notification_config initial_state
           sample_rate_data) = initial_state"
proof -
  have dec: "evaluate failing_smtp_world initial_state (PFloat sample_rate)
      (PFloat sample_threshold) = Inr SendAlert"
    using sample_rate_below by (simp add: evaluate_floats initial_state_def)
  have lk: "py_truthy sample_rate_data"
    "py_get sample_rate_data ''current_rate'' = Inr (PFloat sample_rate)"
    "py_get sample_rate_data ''threshold'' = Inr (PFloat sample_threshold)"
    by (simp_all add: sample_rate_data_def rate_sample_def dict_get_def dict_get_default_def)
  have failed: "\<not> fst (send_email_notification failing_smtp_world sample_notification_config
      sample_rate_data (SendAlert = SendAlert))"
    by (simp add: send_email_notification_def sample_rate_data_def format_email_message_floats
          failing_smtp_world_def sample_world_def sample_notification_config_def)
  show ?thesis
    using failed_send_keeps_state [OF dec _ lk failed] dec failed by simp
qed

section \<open>The daily reset\<close>

text \<open>
  C8. At a fixed date, \<open>reset_daily_flags\<close> applied twice gives the state that one
  application gives. It clears \<open>alert_sent_today\<close> and \<open>last_daily_summary\<close> when
  \<open>last_daily_summary\<close> differs from today's date, and changes nothing when the two
  are equal.
\<close>

theorem reset_daily_flags_idempotent:
  "reset_daily_flags w (reset_daily_flags w st) = reset_daily_flags w st
   \<and> reset_daily_flags w st =
       (if last_daily_summary st \<noteq> today_date w
        then \<lparr>alert_sent_today = False, last_daily_summary = ''''\<rparr>
        else st)"
  by (simp add: reset_daily_flags_def get_today_date_def Let_def)

theorem reset_daily_flags_idempotent_witness:
  "reset_daily_flags sample_world \<lparr>alert_sent_today = True, last_daily_summary = ''''\<rparr>
     = \<lparr>alert_sent_today = False, last_daily_summary = ''''\<rparr>
   \<and> reset_daily_flags sample_world
        (reset_daily_flags sample_world \<lparr>alert_sent_today = True, last_daily_summary = ''''\<rparr>)
     = \<lparr>alert_sent_today = False, last_daily_summary = ''''\<rparr>
   \<and> reset_daily_flags sample_world
        \<lparr>alert_sent_today = True, last_daily_summary = ''2025-01-27''\<rparr>
     = \<lparr>alert_sent_today = True, last_daily_summary = ''2025-01-27''\<rparr>"
proof -
  let ?after_alert = "\<lparr>alert_sent_today = True, last_daily_summary = ''''\<rparr>"
  let ?after_summary = "\<lparr>alert_sent_today = True, last_daily_summary = ''2025-01-27''\<rparr>"
  have day: "today_date sample_world = ''2025-01-27''"
    by (simp add: sample_world_def)
  have once: "reset_daily_flags sample_world ?after_alert
      = \<lparr>alert_sent_today = False, last_daily_summary = ''''\<rparr>"
    using reset_daily_flags_idempotent [of sample_world ?after_alert] by (simp add: day)
  have twice: "reset_daily_flags sample_world (reset_daily_flags sample_world ?after_alert)
      = reset_daily_flags sample_world ?after_alert"
    using reset_daily_flags_idempotent [of sample_world ?after_alert] by blast
  have kept: "reset_daily_flags sample_world ?after_summary = ?after_summary"
    using reset_daily_flags_idempotent [of sample_world ?after_summary] by (simp add: day)
  show ?thesis
    using once twice kept by simp
qed

section \<open>Missing credentials\<close>

text \<open>
  C9. When \<open>send_notifications\<close> takes the alert branch or the summary branch and the
  sender address or the Gmail app password is empty, the send step returns \<open>True\<close>
  with no message sent; \<open>send_notifications\<close> then returns \<open>True\<close> and updates the
  state as after a delivery: \<open>alert_sent_today\<close> is set (and \<open>last_daily_summary\<close>
  cleared) on the alert branch, \<open>last_daily_summary\<close> becomes today's date on the
  summary branch.
\<close>

theorem missing_credentials_count_as_sent:
  assumes "evaluate w st c t = Inr dec"
      and "dec = SendAlert \<or> dec = SendSummary"
      and "py_truthy rate_data"
      and "py_get rate_data ''current_rate'' = Inr c"
      and "py_get rate_data ''threshold'' = Inr t"
      and "email cfg = [] \<or> gmail_app_password cfg = []"
  shows "send_email_notification w cfg rate_data (dec = SendAlert) = (True, [])
       \<and> send_notifications w cfg st rate_data =
           \<lparr>ok = True,
            next_state =
              (if dec = SendAlert
               then st\<lparr>alert_sent_today := True, last_daily_summary := ''''\<rparr>
               else st\<lparr>last_daily_summary := today_date w\<rparr>),
            outbox = []\<rparr>"
proof -
  have skip: "send_email_notification w cfg rate_data a = (True, [])" for a
    using assms(6) by (auto simp: send_email_notification_def)
  note run = send_notifications_by_decision
    [OF assms(3,4,5), of w cfg st] evaluate_not_None [OF assms(1)]
  show ?thesis
    using run assms(1,2) by (auto simp: skip get_today_date_def)
qed

theorem missing_credentials_count_as_sent_witness:
  "evaluate sample_world initial_state (PFloat sample_rate) (PFloat sample_threshold)
     = Inr SendAlert
   \<and> email unconfigured_notification_config = []
   \<and> send_notifications sample_world unconfigured_notification_config initial_state
        sample_rate_data =
       \<lparr>ok = True,
        next_state = \<lparr>alert_sent_today = True, last_daily_summary = ''''\<rparr>,
        outbox = []\<rparr>"
proof -
  have dec: "evaluate sample_world initial_state (PFloat sample_rate)
      (PFloat sample_threshold) = Inr SendAlert"
    using sample_rate_below by (simp add: evaluate_floats initial_state_def)
  have lk: "py_truthy sample_rate_data"
    "py_get sample_rate_data ''current_rate'' = Inr (PFloat sample_rate)"
    "py_get sample_rate_data ''threshold'' = Inr (PFloat sample_threshold)"
    by (simp_all add: sample_rate_data_def rate_sample_def dict_get_def dict_get_default_def)
  have none: "email unconfigured_notification_config = []
      \<or> gmail_app_password unconfigured_notification_config = []"
    by (simp add: unconfigured_notification_config_def)
  show ?thesis
    using missing_credentials_count_as_sent [OF dec _ lk none] dec
    by (simp add: unconfigured_notification_config_def initial_state_def)
qed

section \<open>Empty and incomplete samples\<close>

text \<open>
  C10. Called with an empty dictionary, or with any other falsy argument,
  \<open>send_notifications\<close> returns \<open>True\<close>, sends nothing and leaves the state. Called
  with a dictionary that is not empty and lacks the key \<open>current_rate\<close> or the key
  \<open>threshold\<close>, it returns \<open>False\<close>, sends nothing and leaves the state.
\<close>

theorem empty_or_incomplete_sample:
  "(\<not> py_truthy rate_data \<longrightarrow>
      send_notifications w cfg st rate_data = \<lparr>ok = True, next_state = st, outbox = []\<rparr>)
   \<and> (d \<noteq> [] \<and> (map_of d ''current_rate'' = None \<or> map_of d ''threshold'' = None) \<longrightarrow>
      send_notifications w cfg st (PDict d) = \<lparr>ok = False, next_state = st, outbox = []\<rparr>)"
  by (auto simp: send_notifications_def send_notifications_body_def dict_get_def
        dict_get_default_def)

theorem empty_or_incomplete_sample_witness:
  "send_notifications sample_world sample_notification_config initial_state (PDict [])
     = \<lparr>ok = True, next_state = initial_state, outbox = []\<rparr>
   \<and> send_notifications sample_world sample_notification_config initial_state PNone
     = \<lparr>ok = True, next_state = initial_state, outbox = []\<rparr>
   \<and> send_notifications sample_world sample_notification_config initial_state
        (PDict [(''current_rate'', PFloat sample_rate)])
     = \<lparr>ok = False, next_state = initial_state, outbox = []\<rparr>
   \<and> send_notifications sample_world sample_notification_config initial_state
        (PDict [(''threshold'', PFloat sample_threshold), (''timestamp'', PStr '''')])
     = \<lparr>ok = False, next_state = initial_state, outbox = []\<rparr>"
  using empty_or_incomplete_sample
          [of "PDict []" sample_world sample_notification_config initial_state
              "[(''current_rate'', PFloat sample_rate)]"]
        empty_or_incomplete_sample
          [of PNone sample_world sample_notification_config initial_state
              "[(''threshold'', PFloat sample_threshold), (''timestamp'', PStr '''')]"]
  by simp

section \<open>Retry with exponential backoff\<close>

lemma retry_from_step_failure:
  assumes "int a < m" and "\<forall>x. f a \<noteq> Inr (Some x)"
  shows "retry_from f m a =
     (if int a < m - 1
      then (fst (retry_from f m (Suc a)), Fetch # Sleep (2 ^ a) # snd (retry_from f m (Suc a)))
      else (fst (retry_from f m (Suc a)), Fetch # snd (retry_from f m (Suc a))))"
proof (cases "f a")
  case (Inl e)
  then show ?thesis
    using assms(1) by (subst retry_from.simps) (simp add: Let_def split: prod.splits)
next
  case (Inr v)
  then have "v = None"
    using assms(2) by (cases v) auto
  then show ?thesis
    using assms(1) Inr by (subst retry_from.simps) (simp add: Let_def split: prod.splits)
qed

lemma retry_from_success:
  assumes "int k < m" and "f k = Inr (Some r)"
      and "\<forall>i. a \<le> i \<and> i < k \<longrightarrow> (\<forall>x. f i \<noteq> Inr (Some x))" and "a \<le> k"
  shows "retry_from f m a =
     (Some r, concat (map (\<lambda>i. [Fetch, Sleep (2 ^ i)]) [a..<k]) @ [Fetch])"
  using assms
proof (induction "k - a" arbitrary: a)
  case 0
  then have "a = k" by simp
  then show ?case
    using 0 by (subst retry_from.simps) simp
next
  case (Suc n)
  then have less: "a < k" by simp
  then have fail: "\<forall>x. f a \<noteq> Inr (Some x)"
    using Suc.prems(3) by simp
  have more: "int a < m - 1" and here: "int a < m"
    using less Suc.prems(1) by simp_all
  have rest: "retry_from f m (Suc a) =
      (Some r, concat (map (\<lambda>i. [Fetch, Sleep (2 ^ i)]) [Suc a..<k]) @ [Fetch])"
    using Suc.hyps(1) [of "Suc a"] Suc.hyps(2) Suc.prems less by simp
  show ?case
    using retry_from_step_failure [of a m f] here fail more rest less
    by (simp add: upt_conv_Cons)
qed

lemma retry_from_exhausted:
  assumes "\<forall>i. a \<le> i \<and> int i < m \<longrightarrow> (\<forall>x. f i \<noteq> Inr (Some x))" and "int a < m"
  shows "retry_from f m a =
     (None, concat (map (\<lambda>i. [Fetch, Sleep (2 ^ i)]) [a..<nat m - 1]) @ [Fetch])"
  using assms
proof (induction "nat m - Suc a" arbitrary: a)
  case 0
  then have last: "\<not> int a < m - 1" and here: "int a < m" by simp_all
  have fail: "\<forall>x. f a \<noteq> Inr (Some x)"
    using 0 by simp
  have stop: "retry_from f m (Suc a) = (None, [])"
    using last by (subst retry_from.simps) simp
  have "nat m - 1 \<le> a"
    using last by simp
  then show ?case
    using retry_from_step_failure [of a m f] here fail last stop by simp
next
  case (Suc n)
  then have more: "int a < m - 1" and here: "int a < m" by simp_all
  have fail: "\<forall>x. f a \<noteq> Inr (Some x)"
    using Suc.prems by simp
  have rest: "retry_from f m (Suc a) =
      (None, concat (map (\<lambda>i. [Fetch, Sleep (2 ^ i)]) [Suc a..<nat m - 1]) @ [Fetch])"
    using Suc.hyps(1) [of "Suc a"] Suc.hyps(2) Suc.prems more by simp
  have "a < nat m - 1"
    using more by simp
  then show ?case
    using retry_from_step_failure [of a m f] here fail more rest
    by (simp add: upt_conv_Cons)
qed

lemma fetches_backoff_trace:
  "length (filter (\<lambda>e. e = Fetch) (backoff_trace k)) = Suc k"
  unfolding backoff_trace_def
  by (induction k) simp_all

text \<open>
  C5. For \<open>max_attempts \<ge> 1\<close> and any sequence of fetcher outcomes (returned values
  and raised exceptions), \<open>get_rate_with_retry\<close> calls the fetcher at most
  \<open>max_attempts\<close> times. If call \<open>k\<close> is the first that returns a rate, that rate is
  returned after exactly the calls \<open>0 \<dots> k\<close>, with a sleep of \<open>2 ^ i\<close> seconds after
  each failed call \<open>i < k\<close> and none after the success. If no call returns a rate, the
  result is \<open>None\<close> after exactly \<open>max_attempts\<close> calls, with a sleep of \<open>2 ^ i\<close>
  seconds after each call but the last. With three attempts and a fetcher that fails
  twice and then succeeds, the value is returned after sleeps of 1 and 2 seconds.
\<close>

theorem get_rate_with_retry_backoff:
  assumes "1 \<le> m" and "m = (case max_attempts of None \<Rightarrow> configured | Some n \<Rightarrow> n)"
  shows "length (filter (\<lambda>e. e = Fetch) (snd (get_rate_with_retry configured f max_attempts)))
           \<le> nat m
       \<and> (\<forall>k r. int k < m \<and> f k = Inr (Some r) \<and> (\<forall>i < k. \<forall>x. f i \<noteq> Inr (Some x))
            \<longrightarrow> get_rate_with_retry configured f max_attempts = (Some r, backoff_trace k))
       \<and> ((\<forall>i. int i < m \<longrightarrow> (\<forall>x. f i \<noteq> Inr (Some x)))
            \<longrightarrow> get_rate_with_retry configured f max_attempts
                  = (None, backoff_trace (nat m - 1)))
       \<and> (m = 3 \<and> (\<forall>x. f 0 \<noteq> Inr (Some x)) \<and> (\<forall>x. f 1 \<noteq> Inr (Some x)) \<and> f 2 = Inr (Some v)
            \<longrightarrow> get_rate_with_retry configured f max_attempts
                  = (Some v, [Fetch, Sleep 1, Fetch, Sleep 2, Fetch]))"
proof -
  have run: "get_rate_with_retry configured f max_attempts = retry_from f m 0"
    using assms(2) by (simp add: get_rate_with_retry_def)
  have success: "get_rate_with_retry configured f max_attempts = (Some r, backoff_trace k)"
    if "int k < m" and "f k = Inr (Some r)" and "\<forall>i < k. \<forall>x. f i \<noteq> Inr (Some x)" for k r
    using retry_from_success [of k m f r 0] that by (simp add: run backoff_trace_def)
  have exhausted: "get_rate_with_retry configured f max_attempts
      = (None, backoff_trace (nat m - 1))"
    if "\<forall>i. int i < m \<longrightarrow> (\<forall>x. f i \<noteq> Inr (Some x))"
    using retry_from_exhausted [of 0 m f] that assms(1) by (simp add: run backoff_trace_def)
  have bound: "length (filter (\<lambda>e. e = Fetch) (snd (get_rate_with_retry configured f max_attempts)))
      \<le> nat m"
  proof (cases "\<exists>k. int k < m \<and> (\<exists>r. f k = Inr (Some r))")
    case True
    define k where "k = (LEAST k. int k < m \<and> (\<exists>r. f k = Inr (Some r)))"
    have at: "int k < m \<and> (\<exists>r. f k = Inr (Some r))"
      unfolding k_def using True by (rule LeastI_ex)
    have before: "\<forall>i < k. \<forall>x. f i \<noteq> Inr (Some x)"
    proof (intro allI impI)
      fix i x assume "i < k"
      then have "\<not> (int i < m \<and> (\<exists>r. f i = Inr (Some r)))"
        unfolding k_def by (rule not_less_Least)
      moreover have "int i < m"
        using \<open>i < k\<close> at by simp
      ultimately show "f i \<noteq> Inr (Some x)" by blast
    qed
    obtain r where "f k = Inr (Some r)"
      using at by blast
    then have "get_rate_with_retry configured f max_attempts = (Some r, backoff_trace k)"
      using success at before by blast
    moreover have "Suc k \<le> nat m"
      using at by linarith
    ultimately show ?thesis
      by (simp add: fetches_backoff_trace)
  next
    case False
    then have "get_rate_with_retry configured f max_attempts
        = (None, backoff_trace (nat m - 1))"
      using exhausted by blast
    moreover have "Suc (nat m - 1) \<le> nat m"
      using assms(1) by linarith
    ultimately show ?thesis
      by (simp add: fetches_backoff_trace)
  qed
  have three: "get_rate_with_retry configured f max_attempts
      = (Some v, [Fetch, Sleep 1, Fetch, Sleep 2, Fetch])"
    if "m = 3" and "\<forall>x. f 0 \<noteq> Inr (Some x)" and "\<forall>x. f 1 \<noteq> Inr (Some x)"
      and "f 2 = Inr (Some v)"
  proof -
    have "\<forall>i < 2. \<forall>x. f i \<noteq> Inr (Some x)"
      using that(2,3) by (auto simp: less_Suc_eq numeral_2_eq_2)
    then have "get_rate_with_retry configured f max_attempts = (Some v, backoff_trace 2)"
      using success [of 2 v] that(1,4) by simp
    then show ?thesis
      by (simp add: backoff_trace_def numeral_2_eq_2)
  qed
  show ?thesis
    using bound success exhausted three by blast
qed

theorem get_rate_with_retry_backoff_witness:
  "get_rate_with_retry 3 flaky_fetcher None
     = (Some sample_rate, [Fetch, Sleep 1, Fetch, Sleep 2, Fetch])
   \<and> get_rate_with_retry 5 dead_fetcher (Some 3)
     = (None, [Fetch, Sleep 1, Fetch, Sleep 2, Fetch])
   \<and> get_rate_with_retry 3 dead_fetcher (Some 1) = (None, [Fetch])"
proof -
  have flaky: "get_rate_with_retry 3 flaky_fetcher None
      = (Some sample_rate, [Fetch, Sleep 1, Fetch, Sleep 2, Fetch])"
    using get_rate_with_retry_backoff
            [where m = 3 and max_attempts = None and configured = 3 and f = flaky_fetcher
               and v = sample_rate]
    by (simp add: flaky_fetcher_def)
  have dead3: "get_rate_with_retry 5 dead_fetcher (Some 3) = (None, backoff_trace (nat 3 - 1))"
    using get_rate_with_retry_backoff
            [where m = 3 and max_attempts = "Some 3" and configured = 5 and f = dead_fetcher]
    by (simp add: dead_fetcher_def)
  have dead1: "get_rate_with_retry 3 dead_fetcher (Some 1) = (None, backoff_trace (nat 1 - 1))"
    using get_rate_with_retry_backoff
            [where m = 1 and max_attempts = "Some 1" and configured = 3 and f = dead_fetcher]
    by (simp add: dead_fetcher_def)
  show ?thesis
    using flaky dead3 dead1 by (simp add: backoff_trace_def numeral_2_eq_2)
qed

section \<open>Failures of the fetch\<close>

lemma retry_from_no_rate:
  assumes "\<forall>i. int i < m \<longrightarrow> (\<forall>x. f i \<noteq> Inr (Some x))"
  shows "fst (retry_from f m 0) = None"
proof (cases "0 < m")
  case True
  then show ?thesis
    using retry_from_exhausted [of 0 m f] assms by simp
next
  case False
  then show ?thesis
    by (subst retry_from.simps) simp
qed

lemma extract_rate_absent:
  assumes "map_of kvs ''rates'' = None
           \<or> (\<exists>rates. map_of kvs ''rates'' = Some (JObj rates) \<and> map_of rates tc = None)"
  shows "extract_rate_from_response w tc (JObj kvs) = Inr None"
  using assms
  by (auto simp: extract_rate_from_response_def extract_rate_body_def)

lemma extract_rate_not_object:
  assumes "\<forall>kvs. data \<noteq> JObj kvs"
  shows "extract_rate_from_response w tc data = Inl AttributeError"
  using assms
  by (cases data) (simp_all add: extract_rate_from_response_def extract_rate_body_def
        extract_handled_def)

lemma extract_rate_rates_not_object:
  assumes "map_of kvs ''rates'' = Some v" and "\<forall>rates. v \<noteq> JObj rates"
  shows "extract_rate_from_response w tc (JObj kvs) = Inl AttributeError"
  using assms
  by (cases v) (simp_all add: extract_rate_from_response_def extract_rate_body_def
        extract_handled_def)

text \<open>
  C7, as the code has it. \<open>get_current_rate\<close> never raises: it returns a rate or
  \<open>None\<close>. A failed request, an error status and a body that is not JSON give
  \<open>None\<close>; so does a decoded body without the \<open>rates\<close> map or without the configured
  currency code in it; a body that is not an object, or whose \<open>rates\<close> are not an
  object, makes \<open>_extract_rate_from_response\<close> raise \<open>AttributeError\<close>, which
  \<open>get_current_rate\<close> catches and turns into \<open>None\<close> as well. All failures are the one
  value \<open>None\<close>: the result does not carry the kind of failure. A retry loop whose every
  attempt ends in such a failure returns \<open>None\<close>.
\<close>

theorem fetch_failures_become_none:
  "(\<exists>r. get_current_rate w tc response = Inr r)
   \<and> (response = RequestFailed \<or> response = BadStatus \<or> response = NotJson
        \<longrightarrow> get_current_rate w tc response = Inr None)
   \<and> (\<forall>kvs. response = Body (JObj kvs)
          \<and> (map_of kvs ''rates'' = None
               \<or> (\<exists>rates. map_of kvs ''rates'' = Some (JObj rates) \<and> map_of rates tc = None))
        \<longrightarrow> get_current_rate w tc response = Inr None)
   \<and> (\<forall>data. response = Body data \<and> (\<forall>kvs. data \<noteq> JObj kvs)
        \<longrightarrow> extract_rate_from_response w tc data = Inl AttributeError
            \<and> get_current_rate w tc response = Inr None)
   \<and> (\<forall>kvs v. response = Body (JObj kvs) \<and> map_of kvs ''rates'' = Some v
          \<and> (\<forall>rates. v \<noteq> JObj rates)
        \<longrightarrow> extract_rate_from_response w tc (JObj kvs) = Inl AttributeError
            \<and> get_current_rate w tc response = Inr None)
   \<and> (\<forall>x. get_current_rate w tc response = Inr (Some x)
        \<longleftrightarrow> (\<exists>data. response = Body data \<and> extract_rate_body w tc data = Inr (Some x)))
   \<and> ((\<forall>i. int i < m \<longrightarrow> get_current_rate w tc (responses i) = Inr None)
        \<longrightarrow> fst (get_rate_with_retry configured
                   (\<lambda>i. get_current_rate w tc (responses i)) (Some m)) = None)"
proof -
  have total: "\<exists>r. get_current_rate w tc response = Inr r"
    by (simp add: get_current_rate_def split: sum.splits)
  have transport: "get_current_rate w tc response = Inr None"
    if "response = RequestFailed \<or> response = BadStatus \<or> response = NotJson"
    using that by (auto simp: get_current_rate_def get_current_rate_body_def)
  have caught: "get_current_rate w tc (Body data) = Inr None"
    if "extract_rate_from_response w tc data = Inl e \<or>
        extract_rate_from_response w tc data = Inr None" for data e
    using that by (auto simp: get_current_rate_def get_current_rate_body_def)
  have absent: "get_current_rate w tc response = Inr None"
    if "response = Body (JObj kvs)"
      and "map_of kvs ''rates'' = None
           \<or> (\<exists>rates. map_of kvs ''rates'' = Some (JObj rates) \<and> map_of rates tc = None)"
    for kvs
    using caught [of "JObj kvs"] extract_rate_absent [OF that(2), of w] that(1) by simp
  have not_object: "extract_rate_from_response w tc data = Inl AttributeError
      \<and> get_current_rate w tc response = Inr None"
    if "response = Body data" and "\<forall>kvs. data \<noteq> JObj kvs" for data
    using caught [of data AttributeError] extract_rate_not_object [OF that(2), of w tc] that(1)
    by simp
  have rates_not_object: "extract_rate_from_response w tc (JObj kvs) = Inl AttributeError
      \<and> get_current_rate w tc response = Inr None"
    if "response = Body (JObj kvs)" and "map_of kvs ''rates'' = Some v"
      and "\<forall>rates. v \<noteq> JObj rates" for kvs v
    using caught [of "JObj kvs" AttributeError]
      extract_rate_rates_not_object [OF that(2,3), of w tc] that(1)
    by simp
  have rate: "get_current_rate w tc response = Inr (Some x)
      \<longleftrightarrow> (\<exists>data. response = Body data \<and> extract_rate_body w tc data = Inr (Some x))" for x
    by (cases response)
       (auto simp: get_current_rate_def get_current_rate_body_def
          extract_rate_from_response_def split: sum.splits if_splits)
  have retry: "fst (get_rate_with_retry configured
      (\<lambda>i. get_current_rate w tc (responses i)) (Some m)) = None"
    if "\<forall>i. int i < m \<longrightarrow> get_current_rate w tc (responses i) = Inr None"
    using retry_from_no_rate [of m "\<lambda>i. get_current_rate w tc (responses i)"] that
    by (simp add: get_rate_with_retry_def)
  show ?thesis
    using total transport absent not_object rates_not_object rate retry by blast
qed

theorem fetch_failures_become_none_witness:
  "get_current_rate sample_world ''CNY'' BadStatus = Inr None
   \<and> get_current_rate sample_world ''CNY'' body_without_code = Inr None
   \<and> get_current_rate sample_world ''CNY'' body_with_rate_list = Inr None
   \<and> get_current_rate sample_world ''CNY'' (Body (JArr [])) = Inr None
   \<and> fst (get_rate_with_retry 3
            (\<lambda>i. get_current_rate sample_world ''CNY''
                    (if i = 0 then BadStatus else body_without_code)) (Some 3)) = None"
proof -
  note inst = fetch_failures_become_none
    [where w = sample_world and tc = "''CNY''" and configured = 3 and m = 3
       and responses = "\<lambda>i. if i = 0 then BadStatus else body_without_code"]
  have status: "get_current_rate sample_world ''CNY'' BadStatus = Inr None"
    using inst [of BadStatus] by blast
  have absent: "get_current_rate sample_world ''CNY'' body_without_code = Inr None"
    using inst [of body_without_code] by (simp add: body_without_code_def)
  have rate_list: "get_current_rate sample_world ''CNY'' body_with_rate_list = Inr None"
    using inst [of body_with_rate_list] by (simp add: body_with_rate_list_def)
  have array: "get_current_rate sample_world ''CNY'' (Body (JArr [])) = Inr None"
    using inst [of "Body (JArr [])"] by simp
  have retry: "fst (get_rate_with_retry 3
      (\<lambda>i. get_current_rate sample_world ''CNY''
              (if i = 0 then BadStatus else body_without_code)) (Some 3)) = None"
    using inst [of BadStatus] status absent by simp
  show ?thesis
    using status absent rate_list array retry by blast
qed

text \<open>
  C7 as stated does not hold: a body without the configured currency code and a failed
  request give the same result, so the result cannot tell an extraction error from a
  fetch error.
\<close>

theorem fetch_failures_untyped:
  "\<not> (get_current_rate sample_world ''CNY'' body_without_code
        \<noteq> get_current_rate sample_world ''CNY'' RequestFailed)"
  by (simp add: get_current_rate_def get_current_rate_body_def extract_rate_from_response_def
        extract_rate_body_def body_without_code_def)

end
